theory Spec2Isabelle
  imports Main "HOL-Library.AList"
begin

section \<open>JSON values and HTTP responses\<close>

text \<open>
  The route handlers receive parsed JSON and answer with \<open>NextResponse.json(obj, {status})\<close>.
  A JSON number is modelled as an integer (every number of the mock stores is one); a
  property that is absent reads as \<open>undefined\<close>, which is \<open>None\<close> here.
\<close>

datatype json =
    JNull
  | JBool bool
  | JNum int
  | JStr string
  | JArr "json list"
  | JObj "(string \<times> json) list"

type_synonym obj = "(string \<times> json) list"

text \<open>JavaScript truthiness, as used by \<open>!x\<close>, \<open>x || y\<close> and \<open>if (x)\<close>.\<close>

fun truthy :: "json option \<Rightarrow> bool" where
  "truthy None = False"
| "truthy (Some JNull) = False"
| "truthy (Some (JBool b)) = b"
| "truthy (Some (JNum n)) = (n \<noteq> 0)"
| "truthy (Some (JStr s)) = (s \<noteq> [])"
| "truthy (Some (JArr _)) = True"
| "truthy (Some (JObj _)) = True"

text \<open>
  \<open>a === b\<close> between a value held by the server and a value of a freshly parsed request
  (or a literal): primitives compare by value, objects and arrays by identity, and a
  freshly parsed object is never identical to a stored one.
\<close>

fun strict_eq :: "json option \<Rightarrow> json option \<Rightarrow> bool" where
  "strict_eq (Some (JArr _)) _ = False"
| "strict_eq (Some (JObj _)) _ = False"
| "strict_eq a b = (a = b)"

text \<open>\<open>a || b\<close> where \<open>b\<close> is a literal.\<close>

definition js_or :: "json option \<Rightarrow> json \<Rightarrow> json" where
  "js_or a b = (if truthy a then the a else b)"

text \<open>
  Property access \<open>v[k]\<close> on a parsed value other than \<open>null\<close>: an object yields the
  property, any other value has none of the properties the handlers read.
\<close>

fun props :: "json \<Rightarrow> obj" where
  "props (JObj kv) = kv"
| "props _ = []"

text \<open>
  An object literal whose property values may be \<open>undefined\<close>; \<open>JSON.stringify\<close> leaves
  such properties out.
\<close>

fun mk_obj :: "(string \<times> json option) list \<Rightarrow> obj" where
  "mk_obj [] = []"
| "mk_obj ((k, None) # kvs) = mk_obj kvs"
| "mk_obj ((k, Some v) # kvs) = (k, v) # mk_obj kvs"

record response =
  status :: nat
  body :: obj

definition json_response :: "nat \<Rightarrow> (string \<times> json option) list \<Rightarrow> response" where
  "json_response st kvs = \<lparr>status = st, body = mk_obj kvs\<rparr>"

text \<open>\<open>n.toString()\<close> for a non-negative integer.\<close>

definition digit_char :: "nat \<Rightarrow> char" where
  "digit_char d = char_of (48 + d)"

fun toString :: "nat \<Rightarrow> string" where
  "toString n = (if n < 10 then [digit_char n] else toString (n div 10) @ [digit_char (n mod 10)])"

declare toString.simps [simp del]

section \<open>Appointments route\<close>

text \<open>
  \<open>let appointments = [...]\<close> is a module-level array of objects; the handler takes it
  and returns it updated. \<open>now\<close> is \<open>new Date().toISOString()\<close>.
\<close>

definition requiredFields :: "string list" where
  "requiredFields = [''patientId'', ''doctorId'', ''date'', ''time'', ''type'']"

text \<open>The predicate of \<open>appointments.find(apt => ...)\<close> in \<open>POST\<close>.\<close>

definition conflicts :: "obj \<Rightarrow> obj \<Rightarrow> bool" where
  "conflicts appointmentData apt \<longleftrightarrow>
     strict_eq (map_of apt ''doctorId'') (map_of appointmentData ''doctorId'') \<and>
     strict_eq (map_of apt ''date'') (map_of appointmentData ''date'') \<and>
     strict_eq (map_of apt ''time'') (map_of appointmentData ''time'') \<and>
     \<not> strict_eq (map_of apt ''status'') (Some (JStr ''Cancelled''))"

text \<open>
  \<open>{ id, ...appointmentData, status, reminderSent, insuranceVerified, createdAt, updatedAt }\<close>:
  a later property of the same name replaces the value and keeps the position.
\<close>

definition spread :: "obj \<Rightarrow> obj \<Rightarrow> obj" where
  "spread base extra = fold (\<lambda>(k, v) acc. AList.update k v acc) extra base"

definition newAppointment :: "string \<Rightarrow> obj \<Rightarrow> nat \<Rightarrow> obj" where
  "newAppointment now appointmentData len =
     spread (spread [(''id'', JStr (toString (len + 1)))] appointmentData)
       [(''status'', js_or (map_of appointmentData ''status'') (JStr ''Pending'')),
        (''reminderSent'', JBool False),
        (''insuranceVerified'', js_or (map_of appointmentData ''insuranceVerified'') (JBool False)),
        (''createdAt'', JStr now),
        (''updatedAt'', JStr now)]"

text \<open>
  \<open>POST\<close> of the appointments route. The request body is \<open>None\<close> when
  \<open>request.json()\<close> throws; \<open>appointmentData[field]\<close> throws on \<open>null\<close>. Both end in the
  \<open>catch\<close> branch.
\<close>

definition appointments_POST :: "string \<Rightarrow> json option \<Rightarrow> obj list \<Rightarrow> response \<times> obj list" where
  "appointments_POST now request appointments =
     (case request of
        None \<Rightarrow>
          (json_response 500 [(''success'', Some (JBool False)),
                              (''error'', Some (JStr ''Failed to create appointment''))],
           appointments)
      | Some JNull \<Rightarrow>
          (json_response 500 [(''success'', Some (JBool False)),
                              (''error'', Some (JStr ''Failed to create appointment''))],
           appointments)
      | Some parsed \<Rightarrow>
          (let appointmentData = props parsed in
           case find (\<lambda>field. \<not> truthy (map_of appointmentData field)) requiredFields of
             Some field \<Rightarrow>
               (json_response 400 [(''success'', Some (JBool False)),
                                   (''error'', Some (JStr (''Missing required field: '' @ field)))],
                appointments)
           | None \<Rightarrow>
               (case find (conflicts appointmentData) appointments of
                  Some conflictingAppointment \<Rightarrow>
                    (json_response 409 [(''success'', Some (JBool False)),
                                        (''error'', Some (JStr ''Doctor is not available at this time''))],
                     appointments)
                | None \<Rightarrow>
                    (let new = newAppointment now appointmentData (length appointments) in
                     (json_response 201 [(''success'', Some (JBool True)),
                                         (''data'', Some (JObj new)),
                                         (''message'', Some (JStr ''Appointment scheduled successfully''))],
                      appointments @ [new])))))"

text \<open>A request carries all required fields when each reads as a truthy value.\<close>

definition has_required :: "obj \<Rightarrow> bool" where
  "has_required appointmentData \<longleftrightarrow>
     list_all (\<lambda>field. truthy (map_of appointmentData field)) requiredFields"

text \<open>Example data: the first appointment of the mock store, with a fixed date.\<close>

definition apt1 :: obj where
  "apt1 = [(''id'', JStr ''1''), (''patientId'', JStr ''1''), (''doctorId'', JStr ''2''),
           (''date'', JStr ''2024-03-01T00:00:00.000Z''), (''time'', JStr ''10:00 AM''),
           (''type'', JStr ''Shoulder Assessment''), (''status'', JStr ''Confirmed'')]"

definition req_no_patient :: obj where
  "req_no_patient = [(''doctorId'', JStr ''2''), (''date'', JStr ''2024-03-01T00:00:00.000Z''),
                     (''time'', JStr ''10:00 AM''), (''type'', JStr ''Follow-up'')]"

definition req_full :: obj where
  "req_full = (''patientId'', JStr ''7'') # req_no_patient"

section \<open>Video-call route\<close>

text \<open>
  The route proxies each recognised request type to the session backend at
  \<open>BACKEND_URL\<close>. The backend is not part of the handler: it is a parameter that maps
  the path and JSON payload of a \<open>fetch\<close> to its outcome. \<open>FetchFails\<close> is a rejected
  \<open>fetch\<close>; the reply's JSON is \<open>None\<close> when \<open>response.json()\<close> throws.
\<close>

datatype backend_reply = FetchFails | Reply nat "json option"

type_synonym backend = "string \<Rightarrow> obj \<Rightarrow> backend_reply"
type_synonym backend_call = "string \<times> obj"

text \<open>\<open>response.ok\<close>: the status is in the range 200 to 299.\<close>

definition reply_ok :: "nat \<Rightarrow> bool" where
  "reply_ok st \<longleftrightarrow> 200 \<le> st \<and> st < 300"

text \<open>\<open>!authHeader || !authHeader.startsWith('Bearer ')\<close> is false.\<close>

definition bearer :: "string option \<Rightarrow> bool" where
  "bearer authHeader = (case authHeader of None \<Rightarrow> False | Some h \<Rightarrow> take 7 h = ''Bearer '')"

text \<open>\<open>sessionData?.sessionId\<close>.\<close>

fun opt_chain :: "json option \<Rightarrow> string \<Rightarrow> json option" where
  "opt_chain None k = None"
| "opt_chain (Some JNull) k = None"
| "opt_chain (Some v) k = map_of (props v) k"

definition video_unavailable :: response where
  "video_unavailable =
     json_response 500 [(''success'', Some (JBool False)),
                        (''message'', Some (JStr ''Video call service unavailable''))]"

definition invalid_request_type :: response where
  "invalid_request_type =
     json_response 400 [(''success'', Some (JBool False)),
                        (''message'', Some (JStr ''Invalid request type''))]"

text \<open>
  The five proxy branches of \<open>POST\<close> have one shape: \<open>fetch\<close> the path with the payload,
  read the reply's JSON, answer 200 with a branch-specific object when \<open>response.ok\<close>, and
  otherwise answer the backend's status with \<open>data.detail || failure\<close>. \<open>on_ok\<close> is the
  branch's success object, \<open>reads_data\<close> tells whether that object reads a property of
  \<open>data\<close> (which throws when \<open>data\<close> is \<open>null\<close>). Every exception ends in the
  \<open>catch\<close> branch.
\<close>

definition proxy ::
  "backend \<Rightarrow> string \<Rightarrow> obj \<Rightarrow> bool \<Rightarrow> (obj \<Rightarrow> (string \<times> json option) list) \<Rightarrow> string
     \<Rightarrow> response \<times> backend_call list" where
  "proxy backend path payload reads_data on_ok failure =
     (case backend path payload of
        FetchFails \<Rightarrow> (video_unavailable, [(path, payload)])
      | Reply st None \<Rightarrow> (video_unavailable, [(path, payload)])
      | Reply st (Some data) \<Rightarrow>
          (if reply_ok st then
             (if reads_data \<and> data = JNull then (video_unavailable, [(path, payload)])
              else (json_response 200 (on_ok (props data)), [(path, payload)]))
           else
             (if data = JNull then (video_unavailable, [(path, payload)])
              else (json_response st
                      [(''success'', Some (JBool False)),
                       (''message'', Some (js_or (map_of (props data) ''detail'') (JStr failure)))],
                    [(path, payload)]))))"

text \<open>
  \<open>POST\<close> of the video-call route: the answer and the list of backend requests made.
  The request body is \<open>None\<close> when \<open>request.json()\<close> throws; destructuring \<open>null\<close>
  throws as well.
\<close>

definition video_call_POST ::
  "backend \<Rightarrow> string option \<Rightarrow> json option \<Rightarrow> response \<times> backend_call list" where
  "video_call_POST backend authHeader request =
     (if \<not> bearer authHeader then
        (json_response 401 [(''success'', Some (JBool False)),
                            (''message'', Some (JStr ''Authentication required''))], [])
      else case request of
        None \<Rightarrow> (video_unavailable, [])
      | Some JNull \<Rightarrow> (video_unavailable, [])
      | Some parsed \<Rightarrow>
          (let b = map_of (props parsed);
               userId = b ''userId''; targetId = b ''targetId''; type = b ''type'';
               sessionData = b ''sessionData''; offer = b ''offer''; answer = b ''answer'';
               candidate = b ''candidate''
           in
           if type = Some (JStr ''start-session'') then
             proxy backend ''/session/start''
               (mk_obj [(''user_id'', userId), (''target_id'', targetId),
                        (''session_type'', Some (JStr ''video_call'')), (''metadata'', sessionData)])
               True
               (\<lambda>data. [(''success'', Some (JBool True)),
                         (''message'', Some (JStr ''Video call session started'')),
                         (''sessionId'', map_of data ''session_id''),
                         (''websocketUrl'', map_of data ''websocket_url''),
                         (''iceServers'', map_of data ''ice_servers'')])
               ''Failed to start session''
           else if type = Some (JStr ''offer'') then
             proxy backend ''/session/webrtc/offer''
               (mk_obj [(''session_id'', opt_chain sessionData ''sessionId''), (''offer'', offer),
                        (''target_id'', targetId)])
               True
               (\<lambda>data. [(''success'', Some (JBool True)),
                         (''message'', Some (JStr ''Offer sent successfully'')),
                         (''sessionId'', map_of data ''session_id'')])
               ''Failed to send offer''
           else if type = Some (JStr ''answer'') then
             proxy backend ''/session/webrtc/answer''
               (mk_obj [(''session_id'', opt_chain sessionData ''sessionId''), (''answer'', answer)])
               False
               (\<lambda>data. [(''success'', Some (JBool True)),
                         (''message'', Some (JStr ''Answer sent successfully''))])
               ''Failed to send answer''
           else if type = Some (JStr ''ice-candidate'') then
             proxy backend ''/session/webrtc/ice-candidate''
               (mk_obj [(''session_id'', opt_chain sessionData ''sessionId''),
                        (''candidate'', candidate)])
               False
               (\<lambda>data. [(''success'', Some (JBool True)),
                         (''message'', Some (JStr ''ICE candidate sent successfully''))])
               ''Failed to send ICE candidate''
           else if type = Some (JStr ''end-session'') then
             proxy backend ''/session/end''
               (mk_obj [(''session_id'', opt_chain sessionData ''sessionId'')])
               True
               (\<lambda>data. [(''success'', Some (JBool True)),
                         (''message'', Some (JStr ''Session ended successfully'')),
                         (''summary'', map_of data ''summary'')])
               ''Failed to end session''
           else (invalid_request_type, [])))"

text \<open>The request types that \<open>POST\<close> has a branch for, and the type set of the wire protocol.\<close>

definition recognized_types :: "string list" where
  "recognized_types = [''start-session'', ''offer'', ''answer'', ''ice-candidate'', ''end-session'']"

definition protocol_types :: "string list" where
  "protocol_types = [''start-session'', ''offer'', ''answer'', ''ice-candidate'', ''end-session'',
                     ''error'']"

definition recognized :: "json option \<Rightarrow> bool" where
  "recognized type \<longleftrightarrow> (\<exists>t \<in> set recognized_types. type = Some (JStr t))"

text \<open>Example data: a backend that accepts every request, and a message of type \<open>error\<close>.\<close>

definition accepting_backend :: backend where
  "accepting_backend path payload = Reply 200 (Some (JObj [(''summary'', JStr ''done'')]))"

definition error_message :: json where
  "error_message = JObj [(''type'', JStr ''error''), (''sessionData'', JObj [(''sessionId'', JStr ''s1'')])]"

definition offer_request :: json where
  "offer_request = JObj [(''type'', JStr ''offer''), (''sessionData'', JObj [(''sessionId'', JStr ''s1'')]),
                         (''offer'', JStr ''sdp'')]"

section \<open>Client hook: video sessions\<close>

text \<open>
  The table \<open>video_sessions\<close> of the schema: \<open>id\<close> is the primary key, \<open>user_id\<close> is
  \<open>NOT NULL\<close>, \<open>target_id\<close> may be null. The participants of a session are the users
  named by these two columns.
\<close>

record video_session =
  vs_id :: string
  user_id :: string
  target_id :: "string option"
  vs_status :: string
  started_at :: string
  ended_at :: "string option"
  metadata :: json

record auth_session =
  uid :: string
  access_token :: string

text \<open>
  What a call of the hook reads from its surroundings: the Supabase session
  (\<open>supabase.auth.getSession()\<close>, also the identity \<open>auth.uid()\<close> of the row-level
  policies), \<open>user?.id\<close> of \<open>useAuth\<close>, the clock (\<open>new Date().toISOString()\<close>) and
  the session backend that stands behind the route while the call runs.
\<close>

record client =
  session :: "auth_session option"
  user :: "string option"
  clock :: string
  server :: backend

datatype api_error = NoSession | SessionExpired | HttpError nat

text \<open>
  \<open>makeAuthenticatedRequest('/api/video-call', {method: 'POST', body})\<close>: throws without
  a session, on a 401 answer and on every other answer that is not ok; otherwise returns
  the answer's JSON. The second component lists the requests that the route sent to the
  backend while serving the call (none when the hook throws before its \<open>fetch\<close>). The
  toasts and \<open>logout()\<close> are left out.
\<close>

definition makeAuthenticatedRequest ::
  "client \<Rightarrow> (string \<times> json option) list \<Rightarrow> (api_error + obj) \<times> backend_call list" where
  "makeAuthenticatedRequest c request_body =
     (case session c of
        None \<Rightarrow> (Inl NoSession, [])
      | Some s \<Rightarrow>
          (let exchange = video_call_POST (server c) (Some (''Bearer '' @ access_token s))
                            (Some (JObj (mk_obj request_body)));
               response = fst exchange
           in (if status response = 401 then Inl SessionExpired
               else if \<not> reply_ok (status response) then Inl (HttpError (status response))
               else Inr (body response),
               snd exchange)))"

text \<open>\<open>auth.uid()\<close> of the row-level policies: the user of the Supabase session, or null.\<close>

definition auth_uid :: "client \<Rightarrow> string option" where
  "auth_uid c = map_option uid (session c)"

text \<open>
  \<open>supabase.from('video_sessions').insert([row])\<close>. The database refuses the row when
  the id is not a string or is already a primary key of the table, when \<open>user_id\<close> is
  null, and when the policy \<open>auth.uid() = user_id\<close> fails; the hook ignores the outcome.
  Every string is taken to be a well-formed identifier of an existing user or session.
\<close>

definition insert_video_session ::
  "string option \<Rightarrow> json option \<Rightarrow> string option \<Rightarrow> string \<Rightarrow> string \<Rightarrow> json
     \<Rightarrow> video_session list \<Rightarrow> video_session list" where
  "insert_video_session auth new_id new_user new_target now meta table =
     (case (new_id, new_user) of
        (Some (JStr i), Some u) \<Rightarrow>
          (if auth = Some u \<and> i \<notin> set (map vs_id table)
           then table @ [\<lparr>vs_id = i, user_id = u, target_id = Some new_target,
                          vs_status = ''active'', started_at = now, ended_at = None,
                          metadata = meta\<rparr>]
           else table)
      | _ \<Rightarrow> table)"

text \<open>
  \<open>.update({status: 'ended', ended_at}).eq('id', sessionId)\<close> under the policy
  \<open>auth.uid() = user_id OR auth.uid() = target_id\<close>; a null never equals anything.
\<close>

definition may_update :: "string option \<Rightarrow> video_session \<Rightarrow> bool" where
  "may_update auth r \<longleftrightarrow>
     (case auth of None \<Rightarrow> False | Some u \<Rightarrow> user_id r = u \<or> target_id r = Some u)"

definition update_ended ::
  "string option \<Rightarrow> string \<Rightarrow> string \<Rightarrow> video_session list \<Rightarrow> video_session list" where
  "update_ended auth sessionId now table =
     map (\<lambda>r. if vs_id r = sessionId \<and> may_update auth r
              then r\<lparr>vs_status := ''ended'', ended_at := Some now\<rparr> else r) table"

definition startVideoCall ::
  "client \<Rightarrow> string \<Rightarrow> json option \<Rightarrow> video_session list \<Rightarrow> (api_error + obj) \<times> video_session list" where
  "startVideoCall c targetId sessionData table =
     (case fst (makeAuthenticatedRequest c
             [(''userId'', map_option JStr (user c)), (''targetId'', Some (JStr targetId)),
              (''type'', Some (JStr ''start-session'')), (''sessionData'', sessionData)]) of
        Inl e \<Rightarrow> (Inl e, table)
      | Inr result \<Rightarrow>
          (if truthy (map_of result ''success'') \<and> truthy (map_of result ''sessionId'')
           then (Inr result,
                 insert_video_session (auth_uid c) (map_of result ''sessionId'') (user c)
                   targetId (clock c) (js_or sessionData (JObj [])) table)
           else (Inr result, table)))"

definition sendWebRTCOffer :: "client \<Rightarrow> string \<Rightarrow> string \<Rightarrow> json \<Rightarrow> api_error + obj" where
  "sendWebRTCOffer c sessionId targetId offer =
     fst (makeAuthenticatedRequest c
       [(''userId'', map_option JStr (user c)), (''targetId'', Some (JStr targetId)),
        (''type'', Some (JStr ''offer'')),
        (''sessionData'', Some (JObj [(''sessionId'', JStr sessionId)])), (''offer'', Some offer)])"

definition sendWebRTCAnswer :: "client \<Rightarrow> string \<Rightarrow> json \<Rightarrow> api_error + obj" where
  "sendWebRTCAnswer c sessionId answer =
     fst (makeAuthenticatedRequest c
       [(''userId'', map_option JStr (user c)), (''type'', Some (JStr ''answer'')),
        (''sessionData'', Some (JObj [(''sessionId'', JStr sessionId)])), (''answer'', Some answer)])"

definition sendICECandidate :: "client \<Rightarrow> string \<Rightarrow> json \<Rightarrow> api_error + obj" where
  "sendICECandidate c sessionId candidate =
     fst (makeAuthenticatedRequest c
       [(''userId'', map_option JStr (user c)), (''type'', Some (JStr ''ice-candidate'')),
        (''sessionData'', Some (JObj [(''sessionId'', JStr sessionId)])),
        (''candidate'', Some candidate)])"

text \<open>
  \<open>endVideoCall\<close>: the result (or the error thrown), the requests that reached the
  backend on its behalf, and the table \<open>video_sessions\<close> afterwards.
\<close>

definition endVideoCall ::
  "client \<Rightarrow> string \<Rightarrow> video_session list
     \<Rightarrow> (api_error + obj) \<times> backend_call list \<times> video_session list" where
  "endVideoCall c sessionId table =
     (case makeAuthenticatedRequest c
             [(''userId'', map_option JStr (user c)), (''type'', Some (JStr ''end-session'')),
              (''sessionData'', Some (JObj [(''sessionId'', JStr sessionId)]))] of
        (Inl e, requests) \<Rightarrow> (Inl e, requests, table)
      | (Inr result, requests) \<Rightarrow>
          (if truthy (map_of result ''success'')
           then (Inr result, requests, update_ended (auth_uid c) sessionId (clock c) table)
           else (Inr result, requests, table)))"

text \<open>
  The backend's answer to \<open>/session/end\<close> lets the route answer 200: its status is ok
  and it carries a JSON body that is not \<open>null\<close>.
\<close>

definition end_accepted :: "backend_reply \<Rightarrow> bool" where
  "end_accepted reply \<longleftrightarrow>
     (case reply of Reply st (Some data) \<Rightarrow> reply_ok st \<and> data \<noteq> JNull | _ \<Rightarrow> False)"

text \<open>
  The operations of the hook that concern a video session, and their effect on the table.
  The three relay operations return a result and have no access to the table.
\<close>

datatype client_op =
    StartVideoCall string "json option"
  | SendWebRTCOffer string string json
  | SendWebRTCAnswer string json
  | SendICECandidate string json
  | EndVideoCall string

fun client_step :: "client \<Rightarrow> client_op \<Rightarrow> video_session list \<Rightarrow> video_session list" where
  "client_step c (StartVideoCall targetId sessionData) table =
     snd (startVideoCall c targetId sessionData table)"
| "client_step c (SendWebRTCOffer sessionId targetId offer) table =
     (let result = sendWebRTCOffer c sessionId targetId offer in table)"
| "client_step c (SendWebRTCAnswer sessionId answer) table =
     (let result = sendWebRTCAnswer c sessionId answer in table)"
| "client_step c (SendICECandidate sessionId candidate) table =
     (let result = sendICECandidate c sessionId candidate in table)"
| "client_step c (EndVideoCall sessionId) table = snd (snd (endVideoCall c sessionId table))"

fun run :: "(client \<times> client_op) list \<Rightarrow> video_session list \<Rightarrow> video_session list" where
  "run [] table = table"
| "run ((c, operation) # rest) table = run rest (client_step c operation table)"

definition participantIds :: "video_session \<Rightarrow> string set" where
  "participantIds r = insert (user_id r) (set_option (target_id r))"

definition participants_of :: "video_session list \<Rightarrow> string \<Rightarrow> string set" where
  "participants_of table sessionId =
     \<Union> (set (map participantIds (filter (\<lambda>r. vs_id r = sessionId) table)))"

text \<open>A row without its end time: identity, participants, status, start time and metadata.\<close>

definition erase_ended_at :: "video_session \<Rightarrow> video_session" where
  "erase_ended_at r = r\<lparr>ended_at := None\<rparr>"

text \<open>Example data: three users, a backend that hands out session \<open>s1\<close>, two clocks.\<close>

definition session_backend :: backend where
  "session_backend path payload =
     Reply 200 (Some (JObj [(''session_id'', JStr ''s1''), (''summary'', JStr ''done'')]))"

definition closed_backend :: backend where
  "closed_backend path payload = Reply 404 (Some (JObj [(''detail'', JStr ''Session not found'')]))"

definition alice :: client where
  "alice = \<lparr>session = Some \<lparr>uid = ''A'', access_token = ''ta''\<rparr>, user = Some ''A'',
            clock = ''2024-03-01T10:00:00.000Z'', server = session_backend\<rparr>"

definition alice_later :: client where
  "alice_later = alice\<lparr>clock := ''2024-03-01T10:00:05.000Z''\<rparr>"

definition alice_refused :: client where
  "alice_refused = alice_later\<lparr>server := closed_backend\<rparr>"

definition unreachable_backend :: backend where
  "unreachable_backend path payload = FetchFails"

definition alice_offline :: client where
  "alice_offline = alice_later\<lparr>server := unreachable_backend\<rparr>"

definition carol :: client where
  "carol = \<lparr>session = Some \<lparr>uid = ''C'', access_token = ''tc''\<rparr>, user = Some ''C'',
            clock = ''2024-03-01T10:00:02.000Z'', server = session_backend\<rparr>"

definition s1_active :: video_session where
  "s1_active = \<lparr>vs_id = ''s1'', user_id = ''A'', target_id = Some ''B'', vs_status = ''active'',
                started_at = ''2024-03-01T09:00:00.000Z'', ended_at = None, metadata = JObj []\<rparr>"

section \<open>Pose-estimation route\<close>

text \<open>
  The table \<open>pose_analyses\<close>; \<open>created_at\<close> is the stored instant in milliseconds
  (\<open>new Date(created_at).getTime()\<close>).
\<close>

record pose_analysis =
  pa_user_id :: string
  pa_session_id :: "string option"
  pose_data :: "json option"
  analysis :: "json option"
  feedback :: "json option"
  score :: "json option"
  created_at :: int

text \<open>
  One request as the handler sees it: the Supabase session's user (\<open>None\<close> when there is
  no session), the \<open>authorization\<close> header, the parsed body (\<open>None\<close> when
  \<open>request.json()\<close> throws), the clock read at the throttle check and the clock read
  when the result is stored, the analysis backend, and whether the insert reports
  \<open>storageError\<close>.
\<close>

record pose_request =
  auth_user :: "string option"
  authorization :: "string option"
  request_body :: "json option"
  currentTime :: int
  timestamp :: int
  analyzer :: backend
  storageError :: bool

text \<open>\<open>.order('created_at', {ascending: false}).limit(1)\<close>: at most one instant, the latest.\<close>

fun newest :: "int list \<Rightarrow> int list" where
  "newest [] = []"
| "newest (x # xs) = (case newest xs of [] \<Rightarrow> [x] | m # _ \<Rightarrow> [max x m])"

text \<open>
  The query for the latest analysis of this session and user. The column \<open>session_id\<close>
  holds identifiers: a \<open>sessionId\<close> that is not a string makes the query fail, and its
  data is \<open>null\<close> (\<open>None\<close>). Every string is taken to be a well-formed identifier.
\<close>

definition recentAnalysis :: "string \<Rightarrow> json option \<Rightarrow> pose_analysis list \<Rightarrow> int list option" where
  "recentAnalysis userid sessionId table =
     (case sessionId of
        Some (JStr s) \<Rightarrow>
          Some (newest (map created_at
                  (filter (\<lambda>r. pa_session_id r = Some s \<and> pa_user_id r = userid) table)))
      | _ \<Rightarrow> None)"

text \<open>The guard in front of the forwarding: lines 34 to 59 of the handler.\<close>

definition throttled :: "string \<Rightarrow> json option \<Rightarrow> int \<Rightarrow> pose_analysis list \<Rightarrow> bool" where
  "throttled userid sessionId now table \<longleftrightarrow>
     truthy sessionId \<and>
     (case recentAnalysis userid sessionId table of
        Some (lastAnalysisTime # _) \<Rightarrow> now - lastAnalysisTime < 500
      | _ \<Rightarrow> False)"

definition throttled_response :: response where
  "throttled_response =
     json_response 200 [(''success'', Some (JBool True)),
                        (''message'', Some (JStr ''Throttled - using previous analysis'')),
                        (''analysis'', Some JNull),
                        (''feedback'', Some (JStr ''Processing previous movement...'')),
                        (''score'', Some JNull)]"

text \<open>The \<open>catch\<close> branch; \<open>reason\<close> stands for the message of the caught error.\<close>

definition pose_unavailable :: "string \<Rightarrow> response" where
  "pose_unavailable reason =
     json_response 500 [(''success'', Some (JBool False)),
                        (''message'', Some (JStr ''Pose estimation service unavailable'')),
                        (''error'', Some (JStr reason))]"

text \<open>
  The insert into \<open>pose_analyses\<close>. It adds nothing when the database reports an error,
  which the handler only logs.
\<close>

definition store_analysis ::
  "bool \<Rightarrow> string \<Rightarrow> json option \<Rightarrow> json option \<Rightarrow> obj \<Rightarrow> int \<Rightarrow> pose_analysis list
     \<Rightarrow> pose_analysis list" where
  "store_analysis failed userid sessionId poseData data now table =
     (let row = (\<lambda>sid. \<lparr>pa_user_id = userid, pa_session_id = sid, pose_data = poseData,
                          analysis = map_of data ''analysis'', feedback = map_of data ''feedback'',
                          score = map_of data ''score'', created_at = now\<rparr>)
      in if failed then table
         else case sessionId of
                None \<Rightarrow> table @ [row None]
              | Some JNull \<Rightarrow> table @ [row None]
              | Some (JStr s) \<Rightarrow> table @ [row (Some s)]
              | _ \<Rightarrow> table)"

text \<open>
  The second half of \<open>POST\<close> (from line 61): the frame is sent to the analysis backend
  and the outcome is answered; a result is stored when the backend's answer is ok. The
  result is the answer, the requests sent to the backend, and the table \<open>pose_analyses\<close>
  afterwards. The best-score bookkeeping after the insert (lines 96 to 131) writes to the
  tables \<open>therapy_sessions\<close> and \<open>user_exercise_stats\<close> only, which neither the guard
  nor the answer reads; it is left out.
\<close>

definition analyze_frame ::
  "pose_request \<Rightarrow> string \<Rightarrow> json option \<Rightarrow> json option \<Rightarrow> json option \<Rightarrow> pose_analysis list
     \<Rightarrow> response \<times> backend_call list \<times> pose_analysis list" where
  "analyze_frame rq userid poseData videoFrame sessionId table =
     (let payload = mk_obj [(''pose_data'', poseData), (''video_frame'', videoFrame),
                            (''session_id'', sessionId)];
          sent = [(''/motion/analyze'', payload)]
      in case analyzer rq ''/motion/analyze'' payload of
           FetchFails \<Rightarrow> (pose_unavailable ''fetch failed'', sent, table)
         | Reply st None \<Rightarrow> (pose_unavailable ''invalid JSON reply'', sent, table)
         | Reply st (Some data) \<Rightarrow>
             if data = JNull then
               (pose_unavailable ''cannot read properties of null'', sent, table)
             else if reply_ok st then
               (json_response 200
                  [(''success'', Some (JBool True)),
                   (''message'', Some (JStr ''Pose data analyzed successfully'')),
                   (''analysis'', map_of (props data) ''analysis''),
                   (''feedback'', map_of (props data) ''feedback''),
                   (''score'', map_of (props data) ''score'')],
                sent,
                store_analysis (storageError rq) userid sessionId poseData (props data)
                  (timestamp rq) table)
             else
               (json_response st
                  [(''success'', Some (JBool False)),
                   (''message'', Some (js_or (map_of (props data) ''detail'')
                                         (JStr ''Failed to analyze pose data'')))],
                sent, table))"

text \<open>
  \<open>POST\<close> of the pose-estimation route: authentication, the parsed body, the throttle
  guard, then the analysis. Every exception ends in the \<open>catch\<close> branch.
\<close>

definition pose_POST ::
  "pose_request \<Rightarrow> pose_analysis list \<Rightarrow> response \<times> backend_call list \<times> pose_analysis list" where
  "pose_POST rq table =
     (case auth_user rq of
        None \<Rightarrow>
          (json_response 401 [(''success'', Some (JBool False)),
                              (''message'', Some (JStr ''Authentication required''))], [], table)
      | Some userid \<Rightarrow>
          if \<not> bearer (authorization rq) then
            (json_response 401 [(''success'', Some (JBool False)),
                                (''message'', Some (JStr ''Invalid authentication token''))], [], table)
          else case request_body rq of
            None \<Rightarrow> (pose_unavailable ''invalid JSON body'', [], table)
          | Some JNull \<Rightarrow> (pose_unavailable ''cannot destructure null'', [], table)
          | Some parsed \<Rightarrow>
              (let b = map_of (props parsed);
                   poseData = b ''poseData''; videoFrame = b ''videoFrame''; sessionId = b ''sessionId''
               in
               if throttled userid sessionId (currentTime rq) table then
                 (throttled_response, [], table)
               else analyze_frame rq userid poseData videoFrame sessionId table))"

text \<open>
  A submission is Accepted when it is forwarded to the analysis backend, and Throttled
  when it is answered with the throttle response without being forwarded.
\<close>

definition accepted :: "pose_request \<Rightarrow> pose_analysis list \<Rightarrow> bool" where
  "accepted rq table \<longleftrightarrow> fst (snd (pose_POST rq table)) \<noteq> []"



text \<open>
  Example data: frame 5 of session S at instant 1000, frame 6 of the same user and
  session 80 ms later; an analysis backend that works and one that is down.
\<close>

definition good_analyzer :: backend where
  "good_analyzer path payload =
     Reply 200 (Some (JObj [(''analysis'', JStr ''ok''), (''feedback'', JStr ''Good form''),
                            (''score'', JNum 90)]))"

definition failing_analyzer :: backend where
  "failing_analyzer path payload = Reply 503 (Some (JObj [(''detail'', JStr ''Model not loaded'')]))"

definition dead_analyzer :: backend where
  "dead_analyzer path payload = FetchFails"

definition frame5 :: pose_request where
  "frame5 = \<lparr>auth_user = Some ''u1'', authorization = Some ''Bearer t'',
             request_body = Some (JObj [(''poseData'', JNum 5), (''sessionId'', JStr ''S'')]),
             currentTime = 1000, timestamp = 1040, analyzer = good_analyzer,
             storageError = False\<rparr>"



definition frame5_failed :: pose_request where
  "frame5_failed = frame5\<lparr>analyzer := failing_analyzer\<rparr>"

definition frame5_dead :: pose_request where
  "frame5_dead = frame5\<lparr>analyzer := dead_analyzer\<rparr>"

definition frame5_payload :: obj where
  "frame5_payload = [(''pose_data'', JNum 5), (''session_id'', JStr ''S'')]"



definition bodyless_analyzer :: backend where
  "bodyless_analyzer path payload = Reply 502 None"

definition frame5_bodyless :: pose_request where
  "frame5_bodyless = frame5\<lparr>analyzer := bodyless_analyzer\<rparr>"


section \<open>Socket provider: reconnection\<close>

text \<open>
  The legacy WebSocket of the socket provider. \<open>connections\<close> counts the sockets that
  \<open>connectWebSocket\<close> has created, \<open>reconnectTimeout\<close> is the pending timer of
  \<open>reconnectTimeoutRef\<close> with its delay in milliseconds, and \<open>scheduled\<close> lists the
  delays of all timers set so far, oldest first.
\<close>

record socket_provider =
  connections :: nat
  reconnectTimeout :: "nat option"
  scheduled :: "nat list"

definition connectWebSocket :: "socket_provider \<Rightarrow> socket_provider" where
  "connectWebSocket sp = sp\<lparr>connections := connections sp + 1\<rparr>"

text \<open>\<open>socketInstance.onclose\<close>: a pending timer is cleared and a new one is set.\<close>

definition onclose :: "socket_provider \<Rightarrow> socket_provider" where
  "onclose sp = sp\<lparr>reconnectTimeout := Some 3000, scheduled := scheduled sp @ [3000]\<rparr>"

text \<open>The timer fires: its callback calls \<open>connectWebSocket\<close>.\<close>

definition timeout_fires :: "socket_provider \<Rightarrow> socket_provider" where
  "timeout_fires sp =
     (case reconnectTimeout sp of
        None \<Rightarrow> sp
      | Some delay \<Rightarrow> connectWebSocket (sp\<lparr>reconnectTimeout := None\<rparr>))"

text \<open>The provider after mounting: \<open>connectWebSocket()\<close> has run once.\<close>

definition mounted :: socket_provider where
  "mounted = connectWebSocket \<lparr>connections = 0, reconnectTimeout = None, scheduled = []\<rparr>"

text \<open>\<open>n\<close> times in a row: the socket closes and the reconnection timer fires.\<close>

fun drops :: "nat \<Rightarrow> socket_provider \<Rightarrow> socket_provider" where
  "drops 0 sp = sp"
| "drops (Suc n) sp = drops n (timeout_fires (onclose sp))"

text \<open>
  The reconnect policy in the words of the specification, for comparison: base 1 s,
  factor 2, cap 30 s (without the jitter), at most 10 attempts.
\<close>

definition spec_backoff :: "nat \<Rightarrow> nat" where
  "spec_backoff attempt = min 30000 (1000 * 2 ^ attempt)"

definition spec_max_attempts :: nat where
  "spec_max_attempts = 10"

section \<open>WebRTC signaling client\<close>

text \<open>
  \<open>initializeWebRTC\<close> wires a peer connection to a signaling socket. The browser is
  outside the code: the calls made on the peer connection are logged in order, \<open>rejects\<close>
  tells which of them the browser rejects (an \<open>await\<close> of a rejected call ends the
  handler), and \<open>local_offer\<close> and \<open>local_answer\<close> are what \<open>createOffer\<close> and
  \<open>createAnswer\<close> produce. The state holds the log and the messages passed to
  \<open>ws.send\<close>; the code keeps no other state, in particular no queue of candidates.
  Handlers are taken to run one after the other.
\<close>

datatype rtc_call =
    CreateOffer
  | CreateAnswer
  | SetLocalDescription json
  | SetRemoteDescription "json option"
  | AddIceCandidate "json option"

record rtc_env =
  local_offer :: json
  local_answer :: json
  rejects :: "rtc_call \<Rightarrow> bool"

record rtc_state =
  calls :: "rtc_call list"
  sent :: "obj list"

text \<open>The signaling socket is opened at a URL that ends in the session id.\<close>

definition signaling_url :: "string \<Rightarrow> string" where
  "signaling_url sessionId = ''ws://localhost:8000/api/v1/webrtc/ws/'' @ sessionId"

definition log_call :: "rtc_call \<Rightarrow> rtc_state \<Rightarrow> rtc_state" where
  "log_call c st = st\<lparr>calls := calls st @ [c]\<rparr>"

definition ws_send :: "obj \<Rightarrow> rtc_state \<Rightarrow> rtc_state" where
  "ws_send message st = st\<lparr>sent := sent st @ [message]\<rparr>"

text \<open>\<open>ws.onopen\<close>: create the offer, set it as local description, send it.\<close>

definition onopen :: "rtc_env \<Rightarrow> rtc_state \<Rightarrow> rtc_state" where
  "onopen env st =
     (let st1 = log_call CreateOffer st in
      if rejects env CreateOffer then st1
      else let st2 = log_call (SetLocalDescription (local_offer env)) st1 in
        if rejects env (SetLocalDescription (local_offer env)) then st2
        else ws_send [(''type'', JStr ''offer''), (''offer'', local_offer env)] st2)"

text \<open>
  \<open>ws.onmessage\<close>. The event data is \<open>None\<close> when \<open>JSON.parse\<close> throws; \<open>data.type\<close>
  throws on \<open>null\<close>.
\<close>

definition onmessage :: "rtc_env \<Rightarrow> json option \<Rightarrow> rtc_state \<Rightarrow> rtc_state" where
  "onmessage env event_data st =
     (case event_data of
        None \<Rightarrow> st
      | Some JNull \<Rightarrow> st
      | Some data \<Rightarrow>
          (let d = map_of (props data) in
           if d ''type'' = Some (JStr ''offer'') then
             (let st1 = log_call (SetRemoteDescription (d ''offer'')) st in
              if rejects env (SetRemoteDescription (d ''offer'')) then st1
              else let st2 = log_call CreateAnswer st1 in
                if rejects env CreateAnswer then st2
                else let st3 = log_call (SetLocalDescription (local_answer env)) st2 in
                  if rejects env (SetLocalDescription (local_answer env)) then st3
                  else ws_send [(''type'', JStr ''answer''), (''answer'', local_answer env)] st3)
           else if d ''type'' = Some (JStr ''answer'') then
             log_call (SetRemoteDescription (d ''answer'')) st
           else if d ''type'' = Some (JStr ''ice-candidate'') then
             log_call (AddIceCandidate (d ''candidate'')) st
           else st))"

text \<open>\<open>peerConnection.onicecandidate\<close>: a candidate that is not null is sent.\<close>

definition onicecandidate :: "json option \<Rightarrow> rtc_state \<Rightarrow> rtc_state" where
  "onicecandidate candidate st =
     (if truthy candidate
      then ws_send [(''type'', JStr ''ice-candidate''), (''candidate'', the candidate)] st
      else st)"

datatype signal_event = OnOpen | OnMessage "json option" | OnIceCandidate "json option"

fun signal_step :: "rtc_env \<Rightarrow> signal_event \<Rightarrow> rtc_state \<Rightarrow> rtc_state" where
  "signal_step env OnOpen st = onopen env st"
| "signal_step env (OnMessage event_data) st = onmessage env event_data st"
| "signal_step env (OnIceCandidate candidate) st = onicecandidate candidate st"

definition signal_run :: "rtc_env \<Rightarrow> signal_event list \<Rightarrow> rtc_state \<Rightarrow> rtc_state" where
  "signal_run env events st = fold (signal_step env) events st"

definition rtc_initial :: rtc_state where
  "rtc_initial = \<lparr>calls = [], sent = []\<rparr>"

text \<open>The remote description is set once the browser has accepted a \<open>setRemoteDescription\<close>.\<close>

fun is_set_remote :: "rtc_call \<Rightarrow> bool" where
  "is_set_remote (SetRemoteDescription d) = True"
| "is_set_remote _ = False"

definition remote_description_set :: "rtc_env \<Rightarrow> rtc_state \<Rightarrow> bool" where
  "remote_description_set env st \<longleftrightarrow> list_ex (\<lambda>c. is_set_remote c \<and> \<not> rejects env c) (calls st)"

text \<open>The candidates handed to \<open>addIceCandidate\<close>, in the order of the calls.\<close>

fun added_candidates :: "rtc_call list \<Rightarrow> json option list" where
  "added_candidates [] = []"
| "added_candidates (AddIceCandidate c # cs) = c # added_candidates cs"
| "added_candidates (_ # cs) = added_candidates cs"

text \<open>The candidates of the ice-candidate messages among the events, in order of arrival.\<close>

fun arrived_candidates :: "signal_event list \<Rightarrow> json option list" where
  "arrived_candidates [] = []"
| "arrived_candidates (OnMessage (Some data) # events) =
     (if data \<noteq> JNull \<and> map_of (props data) ''type'' = Some (JStr ''ice-candidate'')
      then map_of (props data) ''candidate'' # arrived_candidates events
      else arrived_candidates events)"
| "arrived_candidates (_ # events) = arrived_candidates events"

text \<open>The three shapes of a message the client sends over the signaling socket.\<close>

definition signaling_shape :: "obj \<Rightarrow> bool" where
  "signaling_shape message \<longleftrightarrow>
     (map fst message = [''type'', ''offer''] \<and> map_of message ''type'' = Some (JStr ''offer'')) \<or>
     (map fst message = [''type'', ''answer''] \<and> map_of message ''type'' = Some (JStr ''answer'')) \<or>
     (map fst message = [''type'', ''candidate''] \<and>
      map_of message ''type'' = Some (JStr ''ice-candidate''))"

text \<open>Example data: a browser that accepts every call, a remote candidate, a remote answer.\<close>

definition easy_browser :: rtc_env where
  "easy_browser = \<lparr>local_offer = JStr ''offer-sdp'', local_answer = JStr ''answer-sdp'',
                   rejects = (\<lambda>c. False)\<rparr>"

definition ice_message :: json where
  "ice_message = JObj [(''type'', JStr ''ice-candidate''), (''candidate'', JStr ''c1'')]"

definition answer_message :: json where
  "answer_message = JObj [(''type'', JStr ''answer''), (''answer'', JStr ''remote-sdp'')]"

definition offer_message :: json where
  "offer_message = JObj [(''type'', JStr ''offer''), (''offer'', JStr ''remote-offer'')]"

definition call_events :: "signal_event list" where
  "call_events = [OnOpen, OnIceCandidate (Some (JStr ''c0'')), OnIceCandidate (Some JNull),
                  OnMessage (Some offer_message), OnMessage (Some ice_message)]"

section \<open>Properties of the appointments route\<close>

lemma find_required_None:
  "has_required d \<Longrightarrow> find (\<lambda>field. \<not> truthy (map_of d field)) requiredFields = None"
  by (simp add: has_required_def find_None_iff list_all_iff)

lemma find_conflict_iff:
  "(find (conflicts d) appointments \<noteq> None) \<longleftrightarrow> (\<exists>apt \<in> set appointments. conflicts d apt)"
  by (auto simp: find_None_iff)

text \<open>
  C10, as stated: a 409 answer if and only if the store holds a conflicting appointment.
  It fails for a request that lacks a required field: the validation answers 400 before
  the conflict check runs, although the store holds a conflicting appointment.
\<close>

theorem C10_conflict_iff_counterexample:
  "conflicts req_no_patient apt1 \<and>
   status (fst (appointments_POST ''t'' (Some (JObj req_no_patient)) [apt1])) = 400 \<and>
   status (fst (appointments_POST ''t'' (Some (JObj req_no_patient)) [apt1])) \<noteq> 409"
  by (simp add: appointments_POST_def conflicts_def req_no_patient_def apt1_def
      requiredFields_def json_response_def)

text \<open>
  C10, amended: for a request that carries every required field, the answer is 409 if and
  only if the store holds an appointment with strictly equal doctorId, date and time whose
  status is not 'Cancelled'; and whenever the answer is not 201 (400, 409 or 500) the
  store is returned unchanged.
\<close>

theorem C10_conflict_iff:
  "(has_required d \<longrightarrow>
      (status (fst (appointments_POST now (Some (JObj d)) appointments)) = 409
         \<longleftrightarrow> (\<exists>apt \<in> set appointments. conflicts d apt))) \<and>
   (status (fst (appointments_POST now request appointments)) \<noteq> 201
      \<longrightarrow> snd (appointments_POST now request appointments) = appointments)"
proof (intro conjI impI)
  assume req: "has_required d"
  show "status (fst (appointments_POST now (Some (JObj d)) appointments)) = 409
          \<longleftrightarrow> (\<exists>apt \<in> set appointments. conflicts d apt)"
  proof (cases "find (conflicts d) appointments")
    case None
    then have "\<not> (\<exists>apt \<in> set appointments. conflicts d apt)"
      using find_conflict_iff [of d appointments] by simp
    with None req show ?thesis
      by (simp add: appointments_POST_def find_required_None json_response_def Let_def)
  next
    case (Some apt)
    then have "\<exists>apt \<in> set appointments. conflicts d apt"
      using find_conflict_iff [of d appointments] by simp
    with Some req show ?thesis
      by (simp add: appointments_POST_def find_required_None json_response_def)
  qed
next
  assume "status (fst (appointments_POST now request appointments)) \<noteq> 201"
  then show "snd (appointments_POST now request appointments) = appointments"
    by (auto simp: appointments_POST_def json_response_def Let_def
        split: option.splits json.splits)
qed

theorem C10_conflict_iff_witness:
  "has_required req_full \<and> conflicts req_full apt1 \<and>
   status (fst (appointments_POST ''t'' (Some (JObj req_full)) [apt1])) = 409 \<and>
   snd (appointments_POST ''t'' (Some (JObj req_full)) [apt1]) = [apt1]"
proof -
  have r: "has_required req_full"
    by (simp add: has_required_def req_full_def req_no_patient_def requiredFields_def)
  have c: "conflicts req_full apt1"
    by (simp add: conflicts_def req_full_def req_no_patient_def apt1_def)
  have "\<exists>apt \<in> set [apt1]. conflicts req_full apt"
    using c by simp
  with r C10_conflict_iff [of req_full "''t''" "[apt1]" "Some (JObj req_full)"]
  show ?thesis using c by simp
qed

section \<open>Properties of the video-call route\<close>

lemma proxy_calls: "snd (proxy backend path payload reads_data on_ok failure) = [(path, payload)]"
  by (simp add: proxy_def split: backend_reply.splits option.splits)

text \<open>
  C5, as stated: a message whose type is in the protocol's type set, \<open>error\<close> included,
  is not rejected as unrecognised. The handler has no branch for \<open>error\<close>: such a message
  is answered 400 'Invalid request type' and nothing is sent to the backend.
\<close>

theorem C5_error_type_counterexample:
  "''error'' \<in> set protocol_types \<and>
   video_call_POST accepting_backend (Some ''Bearer token'') (Some error_message)
     = (invalid_request_type, [])"
  by (simp add: protocol_types_def video_call_POST_def error_message_def bearer_def)

text \<open>
  C5, amended: the recognised types are start-session, offer, answer, ice-candidate and
  end-session. For an authenticated request with a parsed body, a type outside these five
  (\<open>error\<close> among them) is answered 400 'Invalid request type' without any backend
  request; a type among the five is forwarded: exactly one backend request is made.
\<close>

theorem C5_unrecognized_rejected:
  assumes "bearer authHeader" and "parsed \<noteq> JNull"
  shows "(\<not> recognized (map_of (props parsed) ''type'') \<longrightarrow>
            video_call_POST backend authHeader (Some parsed) = (invalid_request_type, [])) \<and>
         (recognized (map_of (props parsed) ''type'') \<longrightarrow>
            length (snd (video_call_POST backend authHeader (Some parsed))) = 1) \<and>
         \<not> recognized (Some (JStr ''error''))"
proof (intro conjI impI)
  assume "\<not> recognized (map_of (props parsed) ''type'')"
  then show "video_call_POST backend authHeader (Some parsed) = (invalid_request_type, [])"
    using assms
    by (cases parsed) (simp_all add: video_call_POST_def recognized_def recognized_types_def Let_def)
next
  assume "recognized (map_of (props parsed) ''type'')"
  then show "length (snd (video_call_POST backend authHeader (Some parsed))) = 1"
    using assms
    by (cases parsed)
       (auto simp: video_call_POST_def recognized_def recognized_types_def Let_def proxy_calls)
next
  show "\<not> recognized (Some (JStr ''error''))"
    by (simp add: recognized_def recognized_types_def)
qed

theorem C5_unrecognized_rejected_witness:
  "bearer (Some ''Bearer token'') \<and> error_message \<noteq> JNull \<and> offer_request \<noteq> JNull \<and>
   \<not> recognized (map_of (props error_message) ''type'') \<and>
   recognized (map_of (props offer_request) ''type'') \<and>
   video_call_POST accepting_backend (Some ''Bearer token'') (Some error_message)
     = (invalid_request_type, []) \<and>
   length (snd (video_call_POST accepting_backend (Some ''Bearer token'') (Some offer_request))) = 1"
proof -
  have b: "bearer (Some ''Bearer token'')" by (simp add: bearer_def)
  have e: "error_message \<noteq> JNull" by (simp add: error_message_def)
  have f: "offer_request \<noteq> JNull" by (simp add: offer_request_def)
  have ne: "\<not> recognized (map_of (props error_message) ''type'')"
    by (simp add: recognized_def recognized_types_def error_message_def)
  have ro: "recognized (map_of (props offer_request) ''type'')"
    by (simp add: recognized_def recognized_types_def offer_request_def)
  from C5_unrecognized_rejected [OF b e, of accepting_backend]
       C5_unrecognized_rejected [OF b f, of accepting_backend] b e f ne ro
  show ?thesis by simp
qed

section \<open>Properties of the video-session hook\<close>

lemma card_participantIds: "card (participantIds r) \<le> 2"
  by (cases "target_id r") (simp_all add: participantIds_def card_insert_if)

lemma ids_insert_video_session:
  "distinct (map vs_id table) \<Longrightarrow>
   distinct (map vs_id (insert_video_session a i u t n m table))"
  by (auto simp: insert_video_session_def split: option.splits json.splits)

lemma ids_update_ended: "map vs_id (update_ended a s n table) = map vs_id table"
  by (simp add: update_ended_def comp_def)

lemma ids_client_step:
  "distinct (map vs_id table) \<Longrightarrow> distinct (map vs_id (client_step c operation table))"
  by (cases operation)
     (auto simp: startVideoCall_def endVideoCall_def ids_insert_video_session ids_update_ended
           split: sum.splits prod.splits)

lemma ids_run: "distinct (map vs_id table) \<Longrightarrow> distinct (map vs_id (run ops table))"
  by (induction ops table rule: run.induct) (simp_all add: ids_client_step)

lemma filter_key_distinct:
  "distinct (map f xs) \<Longrightarrow> length (filter (\<lambda>r. f r = a) xs) \<le> 1"
proof (induction xs)
  case Nil
  then show ?case by simp
next
  case (Cons x xs)
  show ?case
  proof (cases "f x = a")
    case True
    with Cons.prems have "a \<notin> f ` set xs" by auto
    then have "filter (\<lambda>r. f r = a) xs = []"
      by (auto simp: filter_empty_conv)
    with True show ?thesis by simp
  next
    case False
    with Cons show ?thesis by simp
  qed
qed

lemma participants_of_bound:
  assumes "distinct (map vs_id table)"
  shows "card (participants_of table sid) \<le> 2"
proof (cases "filter (\<lambda>r. vs_id r = sid) table")
  case Nil
  then show ?thesis by (simp add: participants_of_def)
next
  case (Cons r rest)
  moreover have "length (filter (\<lambda>r. vs_id r = sid) table) \<le> 1"
    using assms by (rule filter_key_distinct)
  ultimately have "filter (\<lambda>r. vs_id r = sid) table = [r]" by simp
  then show ?thesis by (simp add: participants_of_def card_participantIds)
qed

text \<open>
  C7: starting from a table that respects the primary key (the empty table does), after
  any sequence of hook operations by any clients (session start, the three relay
  operations, session end) the participants of every session are at most two. A session
  row has exactly the columns \<open>user_id\<close> and \<open>target_id\<close>, a second row with the same id
  is refused, and no operation rewrites either column.
\<close>

theorem C7_participants_at_most_two:
  "distinct (map vs_id table) \<Longrightarrow> card (participants_of (run ops table) sessionId) \<le> 2"
  by (rule participants_of_bound) (rule ids_run)

theorem C7_participants_at_most_two_witness:
  "distinct (map vs_id ([] :: video_session list)) \<and>
   participants_of (run [(alice, StartVideoCall ''B'' None), (carol, StartVideoCall ''A'' None)] [])
     ''s1'' = {''A'', ''B''} \<and>
   card (participants_of (run [(alice, StartVideoCall ''B'' None), (carol, StartVideoCall ''A'' None)] [])
     ''s1'') \<le> 2"
proof -
  have d: "distinct (map vs_id ([] :: video_session list))" by simp
  have p: "participants_of
             (run [(alice, StartVideoCall ''B'' None), (carol, StartVideoCall ''A'' None)] []) ''s1''
           = {''A'', ''B''}"
    by (simp add: participants_of_def participantIds_def startVideoCall_def alice_def carol_def
        session_backend_def makeAuthenticatedRequest_def video_call_POST_def bearer_def proxy_def
        reply_ok_def json_response_def insert_video_session_def js_or_def auth_uid_def)
  from C7_participants_at_most_two [OF d,
      of "[(alice, StartVideoCall ''B'' None), (carol, StartVideoCall ''A'' None)]" "''s1''"] d p
  show ?thesis by simp
qed

lemma update_ended_twice:
  "map erase_ended_at (update_ended a s n2 (update_ended a s n1 table))
     = map erase_ended_at (update_ended a s n1 table)"
  by (auto simp: update_ended_def erase_ended_at_def)

lemma end_request_accepted:
  assumes "session c = Some a"
    and "end_accepted (server c ''/session/end'' [(''session_id'', JStr s)])"
  shows "\<exists>result. endVideoCall c s table
           = (Inr result, [(''/session/end'', [(''session_id'', JStr s)])],
              update_ended (auth_uid c) s (clock c) table) \<and>
           map_of result ''success'' = Some (JBool True)"
proof (cases "server c ''/session/end'' [(''session_id'', JStr s)]")
  case FetchFails
  with assms(2) show ?thesis by (simp add: end_accepted_def)
next
  case (Reply st reply)
  with assms(2) obtain data where d: "reply = Some data" "reply_ok st" "data \<noteq> JNull"
    by (cases reply) (auto simp: end_accepted_def)
  with Reply assms(1) show ?thesis
    by (cases "user c")
       (simp_all add: endVideoCall_def makeAuthenticatedRequest_def video_call_POST_def bearer_def
        proxy_def json_response_def Let_def reply_ok_def)
qed

lemma update_ended_rows:
  assumes "row \<in> set (update_ended a s n table)" and "vs_id row = s" and "may_update a row"
  shows "vs_status row = ''ended'' \<and> ended_at row = Some n"
proof -
  from assms(1) obtain r where r: "r \<in> set table"
    "row = (if vs_id r = s \<and> may_update a r
            then r\<lparr>vs_status := ''ended'', ended_at := Some n\<rparr> else r)"
    unfolding update_ended_def by auto
  show ?thesis
  proof (cases "vs_id r = s \<and> may_update a r")
    case True
    with r(2) show ?thesis by simp
  next
    case False
    with r(2) have "row = r" by simp
    with assms(2,3) False show ?thesis by simp
  qed
qed
lemma end_request_refused:
  assumes "session c = Some a"
    and "\<not> end_accepted (server c ''/session/end'' [(''session_id'', JStr s)])"
  shows "\<exists>e. endVideoCall c s table
           = (Inl e, [(''/session/end'', [(''session_id'', JStr s)])], table)"
proof (cases "server c ''/session/end'' [(''session_id'', JStr s)]")
  case FetchFails
  with assms(1) show ?thesis
    by (cases "user c")
       (simp_all add: endVideoCall_def makeAuthenticatedRequest_def video_call_POST_def bearer_def
        proxy_def json_response_def Let_def reply_ok_def video_unavailable_def)
next
  case (Reply st reply)
  show ?thesis
  proof (cases reply)
    case None
    with Reply assms(1) show ?thesis
      by (cases "user c")
         (simp_all add: endVideoCall_def makeAuthenticatedRequest_def video_call_POST_def bearer_def
          proxy_def json_response_def Let_def reply_ok_def video_unavailable_def)
  next
    case (Some data)
    with Reply assms(2) have "data = JNull \<or> \<not> reply_ok st" by (auto simp: end_accepted_def)
    with Some Reply assms(1) show ?thesis
      by (cases "user c")
         (auto simp: endVideoCall_def makeAuthenticatedRequest_def video_call_POST_def bearer_def
          proxy_def json_response_def Let_def reply_ok_def video_unavailable_def)
  qed
qed

lemma endVideoCall_success:
  assumes "fst (endVideoCall c s table) = Inr r" and "truthy (map_of r ''success'')"
  shows "snd (snd (endVideoCall c s table)) = update_ended (auth_uid c) s (clock c) table \<and>
         session c \<noteq> None"
  using assms
  by (auto simp: endVideoCall_def makeAuthenticatedRequest_def split: sum.splits prod.splits if_splits option.splits)

text \<open>
  C6, as stated: the second end-session is a no-op that succeeds without error and leaves
  the session as the first one left it. The second \<open>endVideoCall\<close> is served by the
  backend again. With a backend that accepts both requests it rewrites \<open>ended_at\<close> with
  its own time, so the table after two calls differs from the table after one. With a
  backend that answers the repeated request 404, or that cannot be reached, the second
  call throws.
\<close>

theorem C6_end_twice_counterexample:
  "map ended_at (snd (snd (endVideoCall alice ''s1'' [s1_active])))
     = [Some ''2024-03-01T10:00:00.000Z''] \<and>
   map ended_at (snd (snd (endVideoCall alice_later ''s1''
                             (snd (snd (endVideoCall alice ''s1'' [s1_active]))))))
     = [Some ''2024-03-01T10:00:05.000Z''] \<and>
   snd (snd (endVideoCall alice_later ''s1'' (snd (snd (endVideoCall alice ''s1'' [s1_active])))))
     \<noteq> snd (snd (endVideoCall alice ''s1'' [s1_active])) \<and>
   fst (endVideoCall alice_refused ''s1'' (snd (snd (endVideoCall alice ''s1'' [s1_active]))))
     = Inl (HttpError 404) \<and>
   fst (endVideoCall alice_offline ''s1'' (snd (snd (endVideoCall alice ''s1'' [s1_active]))))
     = Inl (HttpError 500)"
  by (simp add: endVideoCall_def alice_later_def alice_refused_def alice_offline_def alice_def
      s1_active_def session_backend_def closed_backend_def unreachable_backend_def
      makeAuthenticatedRequest_def video_call_POST_def bearer_def proxy_def reply_ok_def
      json_response_def update_ended_def auth_uid_def may_update_def video_unavailable_def js_or_def)

text \<open>
  C6, amended: after a first \<open>endVideoCall\<close> that succeeded, a second one for the same
  session by the same signed-in user is not a no-op: it sends a new \<open>/session/end\<close>
  request to the backend, and the backend's answer decides it. When that answer is ok and
  carries a JSON body that is not null, the call succeeds and every row of the session that
  the user may update is written again: its status is 'ended' and its \<open>ended_at\<close> is the
  time of the second call. On every other answer (no answer, a status that is not ok, no
  JSON body, the body null) the call throws and the table is left as the first call left
  it. In both cases every row is as after the first call except for \<open>ended_at\<close>.
\<close>

theorem C6_end_twice:
  assumes "fst (endVideoCall c s table) = Inr r" and "truthy (map_of r ''success'')"
    and "session c' = session c"
  shows "fst (snd (endVideoCall c' s (snd (snd (endVideoCall c s table)))))
           = [(''/session/end'', [(''session_id'', JStr s)])] \<and>
         map erase_ended_at (snd (snd (endVideoCall c' s (snd (snd (endVideoCall c s table))))))
           = map erase_ended_at (snd (snd (endVideoCall c s table))) \<and>
         (end_accepted (server c' ''/session/end'' [(''session_id'', JStr s)]) \<longrightarrow>
            (\<exists>result. fst (endVideoCall c' s (snd (snd (endVideoCall c s table)))) = Inr result \<and>
                       map_of result ''success'' = Some (JBool True)) \<and>
            snd (snd (endVideoCall c' s (snd (snd (endVideoCall c s table)))))
              = update_ended (auth_uid c) s (clock c') (snd (snd (endVideoCall c s table))) \<and>
            (\<forall>row \<in> set (snd (snd (endVideoCall c' s (snd (snd (endVideoCall c s table)))))).
               vs_id row = s \<and> may_update (auth_uid c) row \<longrightarrow>
               vs_status row = ''ended'' \<and> ended_at row = Some (clock c'))) \<and>
         (\<not> end_accepted (server c' ''/session/end'' [(''session_id'', JStr s)]) \<longrightarrow>
            isl (fst (endVideoCall c' s (snd (snd (endVideoCall c s table))))) \<and>
            snd (snd (endVideoCall c' s (snd (snd (endVideoCall c s table)))))
              = snd (snd (endVideoCall c s table)))"
proof -
  let ?T1 = "snd (snd (endVideoCall c s table))"
  let ?reply = "server c' ''/session/end'' [(''session_id'', JStr s)]"
  from endVideoCall_success [OF assms(1,2)]
  have T1: "?T1 = update_ended (auth_uid c) s (clock c) table" and "session c \<noteq> None"
    by simp_all
  then obtain a where a: "session c' = Some a" using assms(3) by auto
  have same: "auth_uid c' = auth_uid c"
    using assms(3) by (simp add: auth_uid_def)
  show ?thesis
  proof (cases "end_accepted ?reply")
    case True
    from end_request_accepted [OF a True, of ?T1] obtain result
      where res: "endVideoCall c' s ?T1
                    = (Inr result, [(''/session/end'', [(''session_id'', JStr s)])],
                       update_ended (auth_uid c') s (clock c') ?T1)"
        "map_of result ''success'' = Some (JBool True)"
      by blast
    have rows: "\<forall>row \<in> set (update_ended (auth_uid c) s (clock c') ?T1).
                  vs_id row = s \<and> may_update (auth_uid c) row \<longrightarrow>
                  vs_status row = ''ended'' \<and> ended_at row = Some (clock c')"
      using update_ended_rows by blast
    have "map erase_ended_at (update_ended (auth_uid c) s (clock c') ?T1) = map erase_ended_at ?T1"
      unfolding T1 by (rule update_ended_twice)
    with res rows True same show ?thesis by simp
  next
    case False
    from end_request_refused [OF a False, of ?T1] obtain e
      where "endVideoCall c' s ?T1 = (Inl e, [(''/session/end'', [(''session_id'', JStr s)])], ?T1)"
      by blast
    with False show ?thesis by simp
  qed
qed


theorem C6_end_twice_witness:
  "fst (endVideoCall alice ''s1'' [s1_active])
     = Inr [(''success'', JBool True), (''message'', JStr ''Session ended successfully''),
            (''summary'', JStr ''done'')] \<and>
   session alice_later = session alice \<and> session alice_refused = session alice \<and>
   end_accepted (server alice_later ''/session/end'' [(''session_id'', JStr ''s1'')]) \<and>
   \<not> end_accepted (server alice_refused ''/session/end'' [(''session_id'', JStr ''s1'')]) \<and>
   fst (snd (endVideoCall alice_later ''s1'' (snd (snd (endVideoCall alice ''s1'' [s1_active])))))
     = [(''/session/end'', [(''session_id'', JStr ''s1'')])] \<and>
   snd (snd (endVideoCall alice_later ''s1'' (snd (snd (endVideoCall alice ''s1'' [s1_active])))))
     = update_ended (auth_uid alice) ''s1'' (clock alice_later)
         (snd (snd (endVideoCall alice ''s1'' [s1_active]))) \<and>
   map vs_status (snd (snd (endVideoCall alice ''s1'' [s1_active]))) = [''ended''] \<and>
   fst (snd (endVideoCall alice_refused ''s1'' (snd (snd (endVideoCall alice ''s1'' [s1_active])))))
     = [(''/session/end'', [(''session_id'', JStr ''s1'')])] \<and>
   isl (fst (endVideoCall alice_refused ''s1'' (snd (snd (endVideoCall alice ''s1'' [s1_active]))))) \<and>
   snd (snd (endVideoCall alice_refused ''s1'' (snd (snd (endVideoCall alice ''s1'' [s1_active])))))
     = snd (snd (endVideoCall alice ''s1'' [s1_active]))"
proof -
  have f: "fst (endVideoCall alice ''s1'' [s1_active])
             = Inr [(''success'', JBool True), (''message'', JStr ''Session ended successfully''),
                    (''summary'', JStr ''done'')]"
    by (simp add: endVideoCall_def alice_def session_backend_def makeAuthenticatedRequest_def
        video_call_POST_def bearer_def proxy_def reply_ok_def json_response_def)
  have t: "truthy (map_of [(''success'', JBool True), (''message'', JStr ''Session ended successfully''),
                           (''summary'', JStr ''done'')] ''success'')"
    by simp
  have s1: "session alice_later = session alice" by (simp add: alice_later_def)
  have s2: "session alice_refused = session alice" by (simp add: alice_refused_def alice_later_def)
  have a1: "end_accepted (server alice_later ''/session/end'' [(''session_id'', JStr ''s1'')])"
    by (simp add: end_accepted_def alice_later_def alice_def session_backend_def reply_ok_def)
  have a2: "\<not> end_accepted (server alice_refused ''/session/end'' [(''session_id'', JStr ''s1'')])"
    by (simp add: end_accepted_def alice_refused_def closed_backend_def reply_ok_def)
  have e: "map vs_status (snd (snd (endVideoCall alice ''s1'' [s1_active]))) = [''ended'']"
    by (simp add: endVideoCall_def alice_def s1_active_def session_backend_def
        makeAuthenticatedRequest_def video_call_POST_def bearer_def proxy_def reply_ok_def
        json_response_def update_ended_def auth_uid_def may_update_def)
  from C6_end_twice [OF f t s1] C6_end_twice [OF f t s2] f s1 s2 a1 a2 e
  show ?thesis by simp
qed

section \<open>Properties of the pose-estimation route\<close>





lemma analyze_frame_sent:
  "fst (snd (analyze_frame rq u p v s table))
     = [(''/motion/analyze'', mk_obj [(''pose_data'', p), (''video_frame'', v), (''session_id'', s)])]"
  by (simp add: analyze_frame_def Let_def split: backend_reply.splits option.splits)









lemma accepted_analyzed:
  assumes "fst (snd (pose_POST rq table)) \<noteq> []"
  shows "\<exists>u p v s. pose_POST rq table = analyze_frame rq u p v s table"
  using assms
  by (auto simp: pose_POST_def Let_def split: option.splits json.splits if_splits)

lemma analyze_frame_unavailable:
  assumes "fst (snd (analyze_frame rq u p v s table)) = [(path, payload)]"
    and "analyzer rq path payload = FetchFails \<or> analyzer rq path payload = Reply st None \<or>
         analyzer rq path payload = Reply st (Some JNull)"
  shows "\<exists>reason. analyze_frame rq u p v s table = (pose_unavailable reason, [(path, payload)], table)"
  using assms unfolding analyze_frame_sent by (auto simp: analyze_frame_def Let_def)

lemma analyze_frame_refused:
  assumes "fst (snd (analyze_frame rq u p v s table)) = [(path, payload)]"
    and "analyzer rq path payload = Reply st (Some data)" and "data \<noteq> JNull" and "\<not> reply_ok st"
  shows "analyze_frame rq u p v s table =
           (json_response st [(''success'', Some (JBool False)),
                              (''message'', Some (js_or (map_of (props data) ''detail'')
                                                    (JStr ''Failed to analyze pose data'')))],
            [(path, payload)], table)"
  using assms unfolding analyze_frame_sent by (auto simp: analyze_frame_def Let_def)

text \<open>
  C8, as stated: a failing analysis call is answered like a throttled submission, not with
  an error status. The handler answers 500 when the call throws and relays the backend's
  status when the backend answers with an error.
\<close>

theorem C8_degrade_counterexample:
  "accepted frame5_dead [] \<and> analyzer frame5_dead ''/motion/analyze'' frame5_payload = FetchFails \<and>
   status (fst (pose_POST frame5_dead [])) = 500 \<and>
   fst (pose_POST frame5_dead []) \<noteq> throttled_response \<and>
   accepted frame5_failed [] \<and> status (fst (pose_POST frame5_failed [])) = 503 \<and>
   fst (pose_POST frame5_failed []) \<noteq> throttled_response"
  by (simp add: accepted_def frame5_dead_def frame5_failed_def frame5_def frame5_payload_def
      dead_analyzer_def failing_analyzer_def pose_POST_def analyze_frame_def throttled_def
      recentAnalysis_def bearer_def reply_ok_def json_response_def throttled_response_def
      pose_unavailable_def)

text \<open>
  C8, amended: for a submission that is forwarded to the analysis backend, when the call
  throws (the backend is unreachable or the request is aborted), or the backend's answer
  has no JSON body or the body \<open>null\<close>, the answer has status 500 with \<open>success: false\<close>
  and the message 'Pose estimation service unavailable'; when the backend answers with a
  status that is not ok and a JSON body that is not \<open>null\<close>, the answer has that status
  with \<open>success: false\<close> and the message \<open>data.detail || 'Failed to analyze pose data'\<close>.
  In all these cases the answer is not the throttle response and nothing is stored.
\<close>

theorem C8_failure_surfaces:
  assumes "fst (snd (pose_POST rq table)) = [(path, payload)]"
  shows "(analyzer rq path payload = FetchFails \<or> analyzer rq path payload = Reply st None \<or>
          analyzer rq path payload = Reply st (Some JNull) \<longrightarrow>
            status (fst (pose_POST rq table)) = 500 \<and>
            map_of (body (fst (pose_POST rq table))) ''success'' = Some (JBool False) \<and>
            map_of (body (fst (pose_POST rq table))) ''message''
              = Some (JStr ''Pose estimation service unavailable'') \<and>
            fst (pose_POST rq table) \<noteq> throttled_response \<and>
            snd (snd (pose_POST rq table)) = table) \<and>
         (analyzer rq path payload = Reply st (Some data) \<and> data \<noteq> JNull \<and> \<not> reply_ok st \<longrightarrow>
            status (fst (pose_POST rq table)) = st \<and>
            map_of (body (fst (pose_POST rq table))) ''success'' = Some (JBool False) \<and>
            map_of (body (fst (pose_POST rq table))) ''message''
              = Some (js_or (map_of (props data) ''detail'') (JStr ''Failed to analyze pose data'')) \<and>
            fst (pose_POST rq table) \<noteq> throttled_response \<and>
            snd (snd (pose_POST rq table)) = table)"
proof -
  from assms have "fst (snd (pose_POST rq table)) \<noteq> []" by simp
  from accepted_analyzed [OF this] obtain u p v s
    where eq: "pose_POST rq table = analyze_frame rq u p v s table" by blast
  with assms have sent: "fst (snd (analyze_frame rq u p v s table)) = [(path, payload)]" by simp
  show ?thesis
  proof (intro conjI impI)
    assume "analyzer rq path payload = FetchFails \<or> analyzer rq path payload = Reply st None \<or>
            analyzer rq path payload = Reply st (Some JNull)"
    from analyze_frame_unavailable [OF sent this] eq obtain reason
      where r: "pose_POST rq table = (pose_unavailable reason, [(path, payload)], table)"
      by auto
    show "status (fst (pose_POST rq table)) = 500"
      by (simp add: r pose_unavailable_def json_response_def)
    show "map_of (body (fst (pose_POST rq table))) ''success'' = Some (JBool False)"
      by (simp add: r pose_unavailable_def json_response_def)
    show "map_of (body (fst (pose_POST rq table))) ''message''
            = Some (JStr ''Pose estimation service unavailable'')"
      by (simp add: r pose_unavailable_def json_response_def)
    show "fst (pose_POST rq table) \<noteq> throttled_response"
      by (simp add: r pose_unavailable_def throttled_response_def json_response_def)
    show "snd (snd (pose_POST rq table)) = table"
      by (simp add: r)
  next
    assume a: "analyzer rq path payload = Reply st (Some data) \<and> data \<noteq> JNull \<and> \<not> reply_ok st"
    then have st: "st \<noteq> 200" by (auto simp: reply_ok_def)
    from a analyze_frame_refused [OF sent, of st data] eq
    have r: "pose_POST rq table =
               (json_response st [(''success'', Some (JBool False)),
                                  (''message'', Some (js_or (map_of (props data) ''detail'')
                                                        (JStr ''Failed to analyze pose data'')))],
                [(path, payload)], table)"
      by simp
    show "status (fst (pose_POST rq table)) = st"
      by (simp add: r json_response_def)
    show "map_of (body (fst (pose_POST rq table))) ''success'' = Some (JBool False)"
      by (simp add: r json_response_def)
    show "map_of (body (fst (pose_POST rq table))) ''message''
            = Some (js_or (map_of (props data) ''detail'') (JStr ''Failed to analyze pose data''))"
      by (simp add: r json_response_def)
    show "fst (pose_POST rq table) \<noteq> throttled_response"
      using st by (simp add: r throttled_response_def json_response_def)
    show "snd (snd (pose_POST rq table)) = table"
      by (simp add: r)
  qed
qed

theorem C8_failure_surfaces_witness:
  "fst (snd (pose_POST frame5_dead [])) = [(''/motion/analyze'', frame5_payload)] \<and>
   analyzer frame5_dead ''/motion/analyze'' frame5_payload = FetchFails \<and>
   status (fst (pose_POST frame5_dead [])) = 500 \<and>
   snd (snd (pose_POST frame5_dead [])) = [] \<and>
   fst (snd (pose_POST frame5_bodyless [])) = [(''/motion/analyze'', frame5_payload)] \<and>
   analyzer frame5_bodyless ''/motion/analyze'' frame5_payload = Reply 502 None \<and>
   status (fst (pose_POST frame5_bodyless [])) = 500 \<and>
   fst (snd (pose_POST frame5_failed [])) = [(''/motion/analyze'', frame5_payload)] \<and>
   analyzer frame5_failed ''/motion/analyze'' frame5_payload
     = Reply 503 (Some (JObj [(''detail'', JStr ''Model not loaded'')])) \<and>
   JObj [(''detail'', JStr ''Model not loaded'')] \<noteq> JNull \<and> \<not> reply_ok 503 \<and>
   status (fst (pose_POST frame5_failed [])) = 503 \<and>
   map_of (body (fst (pose_POST frame5_failed []))) ''message'' = Some (JStr ''Model not loaded'') \<and>
   snd (snd (pose_POST frame5_failed [])) = []"
proof -
  have a: "fst (snd (pose_POST frame5_dead [])) = [(''/motion/analyze'', frame5_payload)]"
    by (simp add: frame5_dead_def frame5_def frame5_payload_def dead_analyzer_def pose_POST_def
        analyze_frame_def throttled_def recentAnalysis_def bearer_def)
  have b: "analyzer frame5_dead ''/motion/analyze'' frame5_payload = FetchFails"
    by (simp add: frame5_dead_def dead_analyzer_def)
  have c: "fst (snd (pose_POST frame5_failed [])) = [(''/motion/analyze'', frame5_payload)]"
    by (simp add: frame5_failed_def frame5_def frame5_payload_def failing_analyzer_def pose_POST_def
        analyze_frame_def throttled_def recentAnalysis_def bearer_def reply_ok_def)
  have d: "analyzer frame5_failed ''/motion/analyze'' frame5_payload
             = Reply 503 (Some (JObj [(''detail'', JStr ''Model not loaded'')]))"
    by (simp add: frame5_failed_def failing_analyzer_def)
  have e: "\<not> reply_ok 503" by (simp add: reply_ok_def)
  have f: "fst (snd (pose_POST frame5_bodyless [])) = [(''/motion/analyze'', frame5_payload)]"
    by (simp add: frame5_bodyless_def frame5_def frame5_payload_def bodyless_analyzer_def
        pose_POST_def analyze_frame_def throttled_def recentAnalysis_def bearer_def)
  have g: "analyzer frame5_bodyless ''/motion/analyze'' frame5_payload = Reply 502 None"
    by (simp add: frame5_bodyless_def bodyless_analyzer_def)
  from C8_failure_surfaces [OF a, of 502 JNull]
       C8_failure_surfaces [OF f, of 502 JNull]
       C8_failure_surfaces [OF c, of 503 "JObj [(''detail'', JStr ''Model not loaded'')]"]
       a b c d e f g
  show ?thesis by (simp add: js_or_def)
qed

section \<open>Properties of the reconnection\<close>

lemma drops_state:
  "drops n sp = \<lparr>connections = connections sp + n, reconnectTimeout = (if n = 0 then reconnectTimeout sp else None),
                 scheduled = scheduled sp @ replicate n 3000\<rparr>"
proof (induction n arbitrary: sp)
  case 0
  show ?case by simp
next
  case (Suc n)
  show ?case
    by (simp add: Suc.IH timeout_fires_def onclose_def connectWebSocket_def
        replicate_app_Cons_same)
qed

text \<open>
  C2, as stated: the delay grows from 1 s by a factor of 2 up to the cap of 30 s, so the
  delay before one attempt is strictly greater than the delay before the previous one,
  and the attempts are bounded (10). In the code the first two delays are both 3000 ms,
  neither is what the policy gives, and after 11 closures an eleventh reconnection has been
  made.
\<close>

theorem C2_backoff_counterexample:
  "scheduled (drops 2 mounted) ! 0 = 3000 \<and> scheduled (drops 2 mounted) ! 1 = 3000 \<and>
   \<not> scheduled (drops 2 mounted) ! 0 < scheduled (drops 2 mounted) ! 1 \<and>
   scheduled (drops 2 mounted) ! 1 < 30000 \<and>
   spec_backoff 0 = 1000 \<and> spec_backoff 1 = 2000 \<and>
   connections (drops 11 mounted) = 12 \<and> spec_max_attempts = 10"
  by (simp add: drops_state mounted_def connectWebSocket_def spec_backoff_def spec_max_attempts_def)

text \<open>
  C2, amended: on every closure of the socket the client schedules one reconnection after
  a fixed delay of 3000 ms; the delay does not grow, has no cap and no jitter, and the
  number of attempts is not bounded: after \<open>n\<close> closures, each followed by its timer,
  \<open>n\<close> delays of 3000 ms have been scheduled and \<open>n\<close> reconnections made, for every
  \<open>n\<close>.
\<close>

theorem C2_fixed_delay:
  "scheduled (drops n mounted) = replicate n 3000 \<and> connections (drops n mounted) = 1 + n"
  by (simp add: drops_state mounted_def connectWebSocket_def)

theorem C2_fixed_delay_witness:
  "scheduled (drops 3 mounted) = replicate 3 3000 \<and> connections (drops 3 mounted) = 4"
  using C2_fixed_delay [of 3] by simp

section \<open>Properties of the signaling client\<close>

lemma added_append: "added_candidates (xs @ ys) = added_candidates xs @ added_candidates ys"
  by (induction xs rule: added_candidates.induct) simp_all

lemma added_onopen: "added_candidates (calls (onopen env st)) = added_candidates (calls st)"
  by (simp add: onopen_def log_call_def ws_send_def Let_def added_append)

lemma added_onicecandidate: "added_candidates (calls (onicecandidate c st)) = added_candidates (calls st)"
  by (simp add: onicecandidate_def ws_send_def)

lemma added_onmessage:
  "added_candidates (calls (onmessage env ev st))
     = added_candidates (calls st) @ arrived_candidates [OnMessage ev]"
proof (cases ev)
  case None
  then show ?thesis by (simp add: onmessage_def)
next
  case (Some data)
  then show ?thesis
    by (cases data)
       (simp_all add: onmessage_def log_call_def ws_send_def Let_def added_append)
qed

lemma arrived_append: "arrived_candidates (xs @ ys) = arrived_candidates xs @ arrived_candidates ys"
  by (induction xs rule: arrived_candidates.induct) simp_all

lemma arrived_Cons: "arrived_candidates (e # es) = arrived_candidates [e] @ arrived_candidates es"
  using arrived_append [of "[e]" es] by simp

lemma added_step:
  "added_candidates (calls (signal_step env e st))
     = added_candidates (calls st) @ arrived_candidates [e]"
  by (cases e) (simp_all add: added_onopen added_onicecandidate added_onmessage)

text \<open>
  C3, as stated: a candidate that arrives before the remote description is set is
  buffered, and forwarded once the remote description is applied. In the code a candidate
  that arrives first is handed to \<open>addIceCandidate\<close> at once, and the remote description
  that follows triggers nothing.
\<close>

theorem C3_ice_buffer_counterexample:
  "\<not> remote_description_set easy_browser rtc_initial \<and>
   calls (signal_run easy_browser [OnMessage (Some ice_message)] rtc_initial)
     = [AddIceCandidate (Some (JStr ''c1''))] \<and>
   calls (signal_run easy_browser [OnMessage (Some ice_message), OnMessage (Some answer_message)]
            rtc_initial)
     = [AddIceCandidate (Some (JStr ''c1'')), SetRemoteDescription (Some (JStr ''remote-sdp''))]"
  by (simp add: remote_description_set_def rtc_initial_def signal_run_def onmessage_def
      ice_message_def answer_message_def log_call_def)

text \<open>
  C3, amended: the client has no candidate buffer. Every ice-candidate message is handed
  to \<open>addIceCandidate\<close> when it arrives, whether or not the remote description is set:
  over any sequence of events, the candidates handed to \<open>addIceCandidate\<close> are the
  candidates of the ice-candidate messages, each exactly once, in the order of arrival.
\<close>

theorem C3_candidates_forwarded:
  "added_candidates (calls (signal_run env events st))
     = added_candidates (calls st) @ arrived_candidates events"
proof (induction events arbitrary: st)
  case Nil
  show ?case by (simp add: signal_run_def)
next
  case (Cons e es)
  have "signal_run env (e # es) st = signal_run env es (signal_step env e st)"
    by (simp add: signal_run_def)
  then show ?case
    using Cons.IH [of "signal_step env e st"] arrived_Cons [of e es] by (simp add: added_step)
qed

theorem C3_candidates_forwarded_witness:
  "added_candidates (calls (signal_run easy_browser
       [OnMessage (Some ice_message), OnMessage (Some answer_message), OnMessage (Some ice_message)]
       rtc_initial))
     = [Some (JStr ''c1''), Some (JStr ''c1'')]"
  using C3_candidates_forwarded [of easy_browser
      "[OnMessage (Some ice_message), OnMessage (Some answer_message), OnMessage (Some ice_message)]"
      rtc_initial]
  by (simp add: rtc_initial_def ice_message_def answer_message_def)

lemma shape_onopen: "list_all signaling_shape (sent st) \<Longrightarrow> list_all signaling_shape (sent (onopen env st))"
  by (simp add: onopen_def log_call_def ws_send_def Let_def signaling_shape_def)

lemma shape_onicecandidate:
  "list_all signaling_shape (sent st) \<Longrightarrow> list_all signaling_shape (sent (onicecandidate c st))"
  by (simp add: onicecandidate_def ws_send_def signaling_shape_def)

lemma shape_onmessage:
  "list_all signaling_shape (sent st) \<Longrightarrow> list_all signaling_shape (sent (onmessage env ev st))"
proof (cases ev)
  case None
  then show "list_all signaling_shape (sent st) \<Longrightarrow> ?thesis" by (simp add: onmessage_def)
next
  case (Some data)
  then show "list_all signaling_shape (sent st) \<Longrightarrow> ?thesis"
    by (cases data)
       (simp_all add: onmessage_def log_call_def ws_send_def Let_def signaling_shape_def)
qed

lemma shape_step:
  "list_all signaling_shape (sent st) \<Longrightarrow> list_all signaling_shape (sent (signal_step env e st))"
  by (cases e) (simp_all add: shape_onopen shape_onicecandidate shape_onmessage)

lemma shape_run:
  "list_all signaling_shape (sent st) \<Longrightarrow> list_all signaling_shape (sent (signal_run env events st))"
  unfolding signal_run_def
  by (induction events arbitrary: st) (simp_all add: shape_step)

lemma shape_keys:
  assumes "signaling_shape m"
  shows "map_of m ''sessionId'' = None \<and> map_of m ''senderId'' = None \<and> length m = 2"
proof -
  from assms have keys: "set (map fst m) \<subseteq> {''type'', ''offer'', ''answer'', ''candidate''}"
    and len: "length (map fst m) = 2"
    unfolding signaling_shape_def by auto
  from keys have "''sessionId'' \<notin> fst ` set m" and "''senderId'' \<notin> fst ` set m" by auto
  then have "map_of m ''sessionId'' = None" and "map_of m ''senderId'' = None"
    by (simp_all add: map_of_eq_None_iff)
  with len show ?thesis by simp
qed

text \<open>
  C4, as stated: every signaling message carries type, sessionId, senderId and a payload.
  The offer that the client sends when the socket opens has the two fields \<open>type\<close> and
  \<open>offer\<close> and neither a \<open>sessionId\<close> nor a \<open>senderId\<close>.
\<close>

theorem C4_message_fields_counterexample:
  "sent (signal_run easy_browser [OnOpen] rtc_initial)
     = [[(''type'', JStr ''offer''), (''offer'', JStr ''offer-sdp'')]] \<and>
   map_of [(''type'', JStr ''offer''), (''offer'', JStr ''offer-sdp'')] ''sessionId'' = None \<and>
   map_of [(''type'', JStr ''offer''), (''offer'', JStr ''offer-sdp'')] ''senderId'' = None"
  by (simp add: signal_run_def onopen_def easy_browser_def rtc_initial_def log_call_def ws_send_def)

text \<open>
  C4, amended: every message the client sends over the signaling socket is one JSON object
  with exactly two fields: \<open>type\<close>, which is 'offer', 'answer' or 'ice-candidate', and
  the payload under the key \<open>offer\<close>, \<open>answer\<close> or \<open>candidate\<close>. No message has a
  \<open>sessionId\<close> or a \<open>senderId\<close> field; the session is named by the socket's URL.
\<close>

theorem C4_message_fields:
  assumes "list_all signaling_shape (sent st)"
  shows "\<forall>m \<in> set (sent (signal_run env events st)).
           signaling_shape m \<and> length m = 2 \<and>
           map_of m ''sessionId'' = None \<and> map_of m ''senderId'' = None"
proof
  fix m
  assume "m \<in> set (sent (signal_run env events st))"
  with shape_run [OF assms, of env events] have "signaling_shape m"
    by (simp add: list_all_iff)
  with shape_keys [of m]
  show "signaling_shape m \<and> length m = 2 \<and>
        map_of m ''sessionId'' = None \<and> map_of m ''senderId'' = None"
    by simp
qed

theorem C4_message_fields_witness:
  "list_all signaling_shape (sent rtc_initial) \<and>
   sent (signal_run easy_browser call_events rtc_initial)
     = [[(''type'', JStr ''offer''), (''offer'', JStr ''offer-sdp'')],
        [(''type'', JStr ''ice-candidate''), (''candidate'', JStr ''c0'')],
        [(''type'', JStr ''answer''), (''answer'', JStr ''answer-sdp'')]] \<and>
   signaling_shape [(''type'', JStr ''offer''), (''offer'', JStr ''offer-sdp'')] \<and>
   signaling_shape [(''type'', JStr ''ice-candidate''), (''candidate'', JStr ''c0'')] \<and>
   signaling_shape [(''type'', JStr ''answer''), (''answer'', JStr ''answer-sdp'')] \<and>
   map_of [(''type'', JStr ''ice-candidate''), (''candidate'', JStr ''c0'')] ''sessionId'' = None \<and>
   map_of [(''type'', JStr ''ice-candidate''), (''candidate'', JStr ''c0'')] ''senderId'' = None"
proof -
  have i: "list_all signaling_shape (sent rtc_initial)" by (simp add: rtc_initial_def)
  have s: "sent (signal_run easy_browser call_events rtc_initial)
             = [[(''type'', JStr ''offer''), (''offer'', JStr ''offer-sdp'')],
                [(''type'', JStr ''ice-candidate''), (''candidate'', JStr ''c0'')],
                [(''type'', JStr ''answer''), (''answer'', JStr ''answer-sdp'')]]"
    by (simp add: signal_run_def call_events_def onopen_def onmessage_def onicecandidate_def
        easy_browser_def rtc_initial_def log_call_def ws_send_def offer_message_def ice_message_def)
  from C4_message_fields [OF i, of easy_browser call_events] i s show ?thesis by simp
qed

end
